theory Spec2Isabelle
  imports Complex_Main
begin

section \<open>JavaScript values, thrown errors and the expect matchers\<close>

text \<open>
  The assertion helpers of \<^verbatim>\<open>lib/helpers/assertions.ts\<close> hand values to the matchers of
  \<^verbatim>\<open>expect\<close>. A matcher either returns or throws; a helper is a sequence of such
  statements and stops at the first throw.

  A JavaScript \<^verbatim>\<open>number\<close> decoded from a JSON body is a finite double (a literal
  too large for a double, which decodes to \<^verbatim>\<open>Infinity\<close>, is left out), and
  \<^verbatim>\<open>JSON.parse\<close> keeps the sign of a zero: \<open>Finite q\<close> is the number \<open>q\<close>, with
  \<open>Finite 0\<close> the positive zero, and \<open>NegativeZero\<close> is \<^verbatim>\<open>-0\<close>. The comparisons
  \<^verbatim>\<open><\<close>, \<^verbatim>\<open><=\<close> and truthiness see both zeros as \<open>0\<close>, which is what \<open>numeric\<close> gives;
  \<^verbatim>\<open>Object.is\<close> tells them apart. A string is a list of characters and stands for a
  JavaScript string of ASCII characters.
\<close>

datatype number =
    Finite rat
  | NegativeZero

fun numeric :: "number \<Rightarrow> rat" where
  "numeric (Finite q) = q"
| "numeric NegativeZero = 0"

datatype jsval =
    JUndefined
  | JNull
  | JBool bool
  | JNum number
  | JStr string
  | JArr "jsval list"
  | JObject

datatype matcher =
    ToBeDefined
  | ToBeTruthy
  | ToBe
  | ToBeGreaterThan
  | ToBeGreaterThanOrEqual
  | ToBeLessThanOrEqual

text \<open>
  \<open>ExpectFailed m\<close> is the error thrown by matcher \<open>m\<close>, \<open>TypeError\<close> the one thrown by
  a property access on \<^verbatim>\<open>undefined\<close>, \<open>Error msg\<close> is \<^verbatim>\<open>new Error(msg)\<close>, and
  \<open>External msg\<close> stands for whatever a library call throws or rejects with.
\<close>

datatype js_error =
    ExpectFailed matcher
  | TypeError
  | Error string
  | External string

type_synonym 'a result = "js_error + 'a"

text \<open>Truthiness: \<^verbatim>\<open>undefined\<close>, \<^verbatim>\<open>null\<close>, \<^verbatim>\<open>false\<close>, \<^verbatim>\<open>0\<close> and \<^verbatim>\<open>""\<close> are falsy.\<close>

fun truthy :: "jsval \<Rightarrow> bool" where
  "truthy JUndefined = False"
| "truthy JNull = False"
| "truthy (JBool b) = b"
| "truthy (JNum n) = (numeric n \<noteq> 0)"
| "truthy (JStr s) = (s \<noteq> [])"
| "truthy (JArr vs) = True"
| "truthy JObject = True"

fun Array_isArray :: "jsval \<Rightarrow> bool" where
  "Array_isArray (JArr vs) = True"
| "Array_isArray v = False"

text \<open>
  \<^verbatim>\<open>toBe\<close> compares with \<^verbatim>\<open>Object.is\<close>: the same primitive value, where \<^verbatim>\<open>-0\<close> and
  \<^verbatim>\<open>0\<close> are different values (\<open>NegativeZero\<close> and \<open>Finite 0\<close> are different
  constructors), and reference identity on arrays and objects. The helpers only ever
  pass it numbers, strings and \<^verbatim>\<open>undefined\<close>; two separately decoded arrays or objects
  are never the same reference.
\<close>

fun Object_is :: "jsval \<Rightarrow> jsval \<Rightarrow> bool" where
  "Object_is (JArr vs) w = False"
| "Object_is JObject w = False"
| "Object_is v w = (v = w)"

text \<open>A field that may be missing from the decoded object reads as \<^verbatim>\<open>undefined\<close>.\<close>

fun optional :: "('a \<Rightarrow> jsval) \<Rightarrow> 'a option \<Rightarrow> jsval" where
  "optional f None = JUndefined"
| "optional f (Some x) = f x"

definition toBeDefined :: "jsval \<Rightarrow> unit result" where
  "toBeDefined v = (if v \<noteq> JUndefined then Inr () else Inl (ExpectFailed ToBeDefined))"

definition toBeTruthy :: "jsval \<Rightarrow> unit result" where
  "toBeTruthy v = (if truthy v then Inr () else Inl (ExpectFailed ToBeTruthy))"

definition toBe :: "jsval \<Rightarrow> jsval \<Rightarrow> unit result" where
  "toBe v expected = (if Object_is v expected then Inr () else Inl (ExpectFailed ToBe))"

text \<open>The numeric matchers throw as well when the received value is not a number.\<close>

fun toBeGreaterThan :: "jsval \<Rightarrow> number \<Rightarrow> unit result" where
  "toBeGreaterThan (JNum a) b =
     (if numeric b < numeric a then Inr () else Inl (ExpectFailed ToBeGreaterThan))"
| "toBeGreaterThan v b = Inl (ExpectFailed ToBeGreaterThan)"

fun toBeGreaterThanOrEqual :: "jsval \<Rightarrow> number \<Rightarrow> unit result" where
  "toBeGreaterThanOrEqual (JNum a) b =
     (if numeric b \<le> numeric a then Inr () else Inl (ExpectFailed ToBeGreaterThanOrEqual))"
| "toBeGreaterThanOrEqual v b = Inl (ExpectFailed ToBeGreaterThanOrEqual)"

fun toBeLessThanOrEqual :: "jsval \<Rightarrow> number \<Rightarrow> unit result" where
  "toBeLessThanOrEqual (JNum a) b =
     (if numeric a \<le> numeric b then Inr () else Inl (ExpectFailed ToBeLessThanOrEqual))"
| "toBeLessThanOrEqual v b = Inl (ExpectFailed ToBeLessThanOrEqual)"

text \<open>A block of statements: the first one that throws ends the block with its error.\<close>

fun block :: "unit result list \<Rightarrow> unit result" where
  "block [] = Inr ()"
| "block (Inl e # rest) = Inl e"
| "block (Inr u # rest) = block rest"

text \<open>\<^verbatim>\<open>Array.prototype.forEach\<close> with a callback that may throw.\<close>

fun forEach :: "('a \<Rightarrow> unit result) \<Rightarrow> 'a list \<Rightarrow> unit result" where
  "forEach f [] = Inr ()"
| "forEach f (x # xs) = (case f x of Inl e \<Rightarrow> Inl e | Inr u \<Rightarrow> forEach f xs)"

subsection \<open>Strings\<close>

text \<open>
  \<^verbatim>\<open>String.prototype.toLowerCase\<close> on strings of ASCII characters, where it maps the 26
  capital letters and leaves every other character alone. Characters outside ASCII,
  some of which the language's function lowers as well, are not modelled: what is said
  of \<open>toLowerCase\<close> below is said of ASCII strings.
\<close>

definition lowerChar :: "char \<Rightarrow> char" where
  "lowerChar c =
     (case map_of (zip ''ABCDEFGHIJKLMNOPQRSTUVWXYZ'' ''abcdefghijklmnopqrstuvwxyz'') c of
        Some l \<Rightarrow> l
      | None \<Rightarrow> c)"

definition toLowerCase :: "string \<Rightarrow> string" where
  "toLowerCase s = map lowerChar s"

text \<open>\<^verbatim>\<open>s.includes(t)\<close>: \<open>t\<close> occurs in \<open>s\<close> as a contiguous substring.\<close>

fun str_includes :: "string \<Rightarrow> string \<Rightarrow> bool" where
  "str_includes [] t = (t = [])"
| "str_includes (c # s) t = (take (length t) (c # s) = t \<or> str_includes s t)"

section \<open>The data model of \<^verbatim>\<open>products-api.ts\<close>\<close>

text \<open>
  The interface \<^verbatim>\<open>Product\<close>. The field \<^verbatim>\<open>id\<close> is written \<open>id'\<close>. The interface
  declares \<^verbatim>\<open>brand: string\<close>, but the helpers note that "Brand is optional in some
  products" and guard it at run time, so a decoded product may lack it: \<open>None\<close> is a
  product whose \<^verbatim>\<open>brand\<close> is \<^verbatim>\<open>undefined\<close>.
\<close>

record Product =
  id' :: number
  title :: string
  description :: string
  price :: number
  discountPercentage :: number
  rating :: number
  stock :: number
  brand :: "string option"
  category :: string
  thumbnail :: string
  images :: "string list"

text \<open>\<^verbatim>\<open>Partial<Product>\<close>: every field may be left out.\<close>

record Partial_Product =
  id_opt :: "number option"
  title_opt :: "string option"
  description_opt :: "string option"
  price_opt :: "number option"
  discountPercentage_opt :: "number option"
  rating_opt :: "number option"
  stock_opt :: "number option"
  brand_opt :: "string option"
  category_opt :: "string option"
  thumbnail_opt :: "string option"
  images_opt :: "string list option"

text \<open>The interface \<^verbatim>\<open>ProductsResponse\<close>; the field \<^verbatim>\<open>total\<close> is written \<open>total'\<close>.\<close>

record ProductsResponse =
  products :: "Product list"
  total' :: number
  skip :: number
  limit :: number

section \<open>The assertion helpers of \<^verbatim>\<open>ProductAssertions\<close>\<close>

definition assertValidProduct :: "Product \<Rightarrow> unit result" where
  "assertValidProduct product = block
     [ toBeDefined JObject,
       toBeGreaterThan (JNum (id' product)) (Finite 0),
       toBeTruthy (JStr (title product)),
       toBeTruthy (JStr (description product)),
       toBeGreaterThan (JNum (price product)) (Finite 0),
       toBeGreaterThanOrEqual (JNum (discountPercentage product)) (Finite 0),
       toBeGreaterThanOrEqual (JNum (rating product)) (Finite 0),
       toBeLessThanOrEqual (JNum (rating product)) (Finite 5),
       toBeGreaterThanOrEqual (JNum (stock product)) (Finite 0),
       (if truthy (optional JStr (brand product))
        then toBeTruthy (optional JStr (brand product))
        else Inr ()),
       toBeTruthy (JStr (category product)),
       toBeTruthy (JStr (thumbnail product)),
       toBeTruthy (JBool (Array_isArray (JArr (map JStr (images product))))) ]"

definition assertValidProductsResponse :: "ProductsResponse \<Rightarrow> unit result" where
  "assertValidProductsResponse response = block
     [ toBeDefined JObject,
       toBeTruthy (JBool (Array_isArray (JArr (map (\<lambda>p. JObject) (products response))))),
       toBeGreaterThan (JNum (total' response)) (Finite 0),
       toBeGreaterThanOrEqual (JNum (skip response)) (Finite 0),
       toBeGreaterThan (JNum (limit response)) (Finite 0),
       toBeLessThanOrEqual (JNum (Finite (of_nat (length (products response)))))
         (limit response) ]"

definition assertProductsMatch :: "Product \<Rightarrow> Partial_Product \<Rightarrow> unit result" where
  "assertProductsMatch actual expected = block
     [ (if truthy (optional JStr (title_opt expected))
        then toBe (JStr (title actual)) (optional JStr (title_opt expected)) else Inr ()),
       (if truthy (optional JNum (price_opt expected))
        then toBe (JNum (price actual)) (optional JNum (price_opt expected)) else Inr ()),
       (if truthy (optional JStr (description_opt expected))
        then toBe (JStr (description actual)) (optional JStr (description_opt expected))
        else Inr ()),
       (if truthy (optional JNum (rating_opt expected))
        then toBe (JNum (rating actual)) (optional JNum (rating_opt expected)) else Inr ()),
       (if truthy (optional JNum (stock_opt expected))
        then toBe (JNum (stock actual)) (optional JNum (stock_opt expected)) else Inr ()),
       (if truthy (optional JStr (brand_opt expected))
        then toBe (optional JStr (brand actual)) (optional JStr (brand_opt expected))
        else Inr ()),
       (if truthy (optional JStr (category_opt expected))
        then toBe (JStr (category actual)) (optional JStr (category_opt expected))
        else Inr ()) ]"

text \<open>
  The callback of \<^verbatim>\<open>assertProductsMatchSearch\<close>. The three matches are computed before
  the \<^verbatim>\<open>expect\<close>; \<^verbatim>\<open>product.brand.toLowerCase()\<close> throws a TypeError when
  \<^verbatim>\<open>product.brand\<close> is \<^verbatim>\<open>undefined\<close>.
\<close>

definition matchSearch :: "string \<Rightarrow> Product \<Rightarrow> unit result" where
  "matchSearch searchTerm product =
     (let searchableTerm = toLowerCase searchTerm;
          titleMatch = str_includes (toLowerCase (title product)) searchableTerm;
          descMatch = str_includes (toLowerCase (description product)) searchableTerm
      in case brand product of
           None \<Rightarrow> Inl TypeError
         | Some b \<Rightarrow>
             (let brandMatch = str_includes (toLowerCase b) searchableTerm
              in toBeTruthy (JBool (titleMatch \<or> descMatch \<or> brandMatch))))"

definition assertProductsMatchSearch :: "Product list \<Rightarrow> string \<Rightarrow> unit result" where
  "assertProductsMatchSearch ps searchTerm = forEach (matchSearch searchTerm) ps"

definition assertPagination ::
  "ProductsResponse \<Rightarrow> number \<Rightarrow> number \<Rightarrow> unit result" where
  "assertPagination response expectedSkip expectedLimit = block
     [ toBe (JNum (skip response)) (JNum expectedSkip),
       toBe (JNum (limit response)) (JNum expectedLimit),
       toBeLessThanOrEqual (JNum (Finite (of_nat (length (products response)))))
         expectedLimit ]"

section \<open>The client wrapper \<^verbatim>\<open>ProductsAPI\<close>\<close>

text \<open>The interface \<^verbatim>\<open>Category\<close>, and the argument type \<^verbatim>\<open>string | Category\<close>.\<close>

record Category =
  slug :: string
  name :: string
  url :: string

datatype category_arg =
    CategoryString string
  | CategoryRecord Category

text \<open>
  The HTTP library is outside the repository. A call such as
  \<^verbatim>\<open>request.get(target, { params })\<close> is one outbound request; what comes back, a
  response or a transport failure, is up to the network, so the request context carries
  a responder together with the list of requests issued so far.
\<close>

datatype http_method = GET | POST | PUT | PATCH | DELETE

datatype request_options =
    NoOptions
  | Params "(string \<times> jsval) list"
  | Data Partial_Product

record http_request =
  verb :: http_method
  target :: string
  options :: request_options

text \<open>
  The library's response object, as what its accessor methods return:
  \<^verbatim>\<open>response.json()\<close> (which rejects when the body does not decode),
  \<^verbatim>\<open>response.status()\<close>, \<^verbatim>\<open>response.ok()\<close>, \<^verbatim>\<open>response.statusText()\<close> and
  \<^verbatim>\<open>response.headers()\<close>.
\<close>

record 'd APIResponse =
  json_result :: "'d result"
  status_code :: int
  ok_flag :: bool
  statusText_value :: string
  headers_value :: "(string \<times> string) list"

record 'd APIRequestContext =
  respond :: "http_request \<Rightarrow> 'd APIResponse result"
  issued :: "http_request list"

definition fetch ::
  "'d APIRequestContext \<Rightarrow> http_request \<Rightarrow> 'd APIResponse result \<times> 'd APIRequestContext" where
  "fetch request rq = (respond request rq, request\<lparr>issued := issued request @ [rq]\<rparr>)"

text \<open>The interface \<^verbatim>\<open>ApiResponse<T>\<close>.\<close>

record 'd ApiResponse =
  data :: 'd
  status :: int
  ok :: bool
  statusText :: string
  headers :: "(string \<times> string) list"

text \<open>
  Every method of the class ends with the same object literal, written once here. The
  body is decoded first; if that rejects, the method rejects with the same error.
\<close>

definition envelope :: "'d APIResponse \<Rightarrow> 'd ApiResponse result" where
  "envelope response =
     (case json_result response of
        Inl e \<Rightarrow> Inl e
      | Inr d \<Rightarrow>
          Inr \<lparr> data = d,
                status = status_code response,
                ok = ok_flag response,
                statusText = statusText_value response,
                headers = headers_value response \<rparr>)"

text \<open>Awaiting the request and then building the envelope from the response.\<close>

definition call ::
  "'d APIRequestContext \<Rightarrow> http_request \<Rightarrow> 'd ApiResponse result \<times> 'd APIRequestContext" where
  "call request rq =
     (case fetch request rq of
        (Inl e, request') \<Rightarrow> (Inl e, request')
      | (Inr response, request') \<Rightarrow> (envelope response, request'))"

text \<open>
  The methods. An omitted argument of \<^verbatim>\<open>getAllProducts\<close> is \<open>None\<close> and takes its
  default. The conversion of a number inside a template literal is the language's own;
  it is the parameter \<open>numberToString\<close>.
\<close>

definition getAllProducts ::
  "'d APIRequestContext \<Rightarrow> number option \<Rightarrow> number option
     \<Rightarrow> 'd ApiResponse result \<times> 'd APIRequestContext" where
  "getAllProducts request limit_arg skip_arg =
     (let limitValue = (case limit_arg of None \<Rightarrow> Finite 30 | Some l \<Rightarrow> l);
          skipValue = (case skip_arg of None \<Rightarrow> Finite 0 | Some s \<Rightarrow> s)
      in call request
           \<lparr> verb = GET, target = ''/products'',
             options = Params [(''limit'', JNum limitValue), (''skip'', JNum skipValue)] \<rparr>)"

definition getProductById ::
  "(number \<Rightarrow> string) \<Rightarrow> 'd APIRequestContext \<Rightarrow> number
     \<Rightarrow> 'd ApiResponse result \<times> 'd APIRequestContext" where
  "getProductById numberToString request ident =
     call request
       \<lparr> verb = GET, target = ''/products/'' @ numberToString ident, options = NoOptions \<rparr>"

definition searchProducts ::
  "'d APIRequestContext \<Rightarrow> string \<Rightarrow> 'd ApiResponse result \<times> 'd APIRequestContext" where
  "searchProducts request query =
     call request
       \<lparr> verb = GET, target = ''/products/search'',
         options = Params [(''q'', JStr query)] \<rparr>"

definition getCategories ::
  "'d APIRequestContext \<Rightarrow> 'd ApiResponse result \<times> 'd APIRequestContext" where
  "getCategories request =
     call request \<lparr> verb = GET, target = ''/products/categories'', options = NoOptions \<rparr>"

definition getProductsByCategory ::
  "'d APIRequestContext \<Rightarrow> category_arg \<Rightarrow> 'd ApiResponse result \<times> 'd APIRequestContext" where
  "getProductsByCategory request categoryArg =
     (let categorySlug = (case categoryArg of CategoryString s \<Rightarrow> s | CategoryRecord c \<Rightarrow> slug c)
      in call request
           \<lparr> verb = GET, target = ''/products/category/'' @ categorySlug,
             options = NoOptions \<rparr>)"

definition addProduct ::
  "'d APIRequestContext \<Rightarrow> Partial_Product
     \<Rightarrow> 'd ApiResponse result \<times> 'd APIRequestContext" where
  "addProduct request product =
     call request \<lparr> verb = POST, target = ''/products/add'', options = Data product \<rparr>"

definition updateProduct ::
  "(number \<Rightarrow> string) \<Rightarrow> 'd APIRequestContext \<Rightarrow> number \<Rightarrow> Partial_Product
     \<Rightarrow> 'd ApiResponse result \<times> 'd APIRequestContext" where
  "updateProduct numberToString request ident updates =
     call request
       \<lparr> verb = PUT, target = ''/products/'' @ numberToString ident,
         options = Data updates \<rparr>"

definition patchProduct ::
  "(number \<Rightarrow> string) \<Rightarrow> 'd APIRequestContext \<Rightarrow> number \<Rightarrow> Partial_Product
     \<Rightarrow> 'd ApiResponse result \<times> 'd APIRequestContext" where
  "patchProduct numberToString request ident updates =
     call request
       \<lparr> verb = PATCH, target = ''/products/'' @ numberToString ident,
         options = Data updates \<rparr>"

definition deleteProduct ::
  "(number \<Rightarrow> string) \<Rightarrow> 'd APIRequestContext \<Rightarrow> number
     \<Rightarrow> 'd ApiResponse result \<times> 'd APIRequestContext" where
  "deleteProduct numberToString request ident =
     call request
       \<lparr> verb = DELETE, target = ''/products/'' @ numberToString ident,
         options = NoOptions \<rparr>"

subsection \<open>The second copy of the class, with a base URL\<close>

text \<open>
  \<^verbatim>\<open>products-api.ts\<close> holds a second \<^verbatim>\<open>ProductsAPI\<close> whose constructor takes
  \<^verbatim>\<open>baseURL = 'https://dummyjson.com'\<close> and whose methods return the decoded body alone.
  Its \<^verbatim>\<open>getProductsByCategory\<close> puts the argument itself into the template literal;
  a string converts to itself and a plain object to \<^verbatim>\<open>[object Object]\<close>.
\<close>

record 'd ProductsAPI_baseURL =
  request_context :: "'d APIRequestContext"
  baseURL :: string

definition new_ProductsAPI_baseURL ::
  "'d APIRequestContext \<Rightarrow> string option \<Rightarrow> 'd ProductsAPI_baseURL" where
  "new_ProductsAPI_baseURL request baseURL_arg =
     \<lparr> request_context = request,
       baseURL = (case baseURL_arg of None \<Rightarrow> ''https://dummyjson.com'' | Some b \<Rightarrow> b) \<rparr>"

fun String_category :: "category_arg \<Rightarrow> string" where
  "String_category (CategoryString s) = s"
| "String_category (CategoryRecord c) = ''[object Object]''"

definition getProductsByCategory_baseURL ::
  "'d ProductsAPI_baseURL \<Rightarrow> category_arg \<Rightarrow> 'd result \<times> 'd ProductsAPI_baseURL" where
  "getProductsByCategory_baseURL this categoryArg =
     (case fetch (request_context this)
             \<lparr> verb = GET,
               target = baseURL this @ ''/products/category/'' @ String_category categoryArg,
               options = NoOptions \<rparr> of
        (Inl e, request') \<Rightarrow> (Inl e, this\<lparr>request_context := request'\<rparr>)
      | (Inr response, request') \<Rightarrow>
          (json_result response, this\<lparr>request_context := request'\<rparr>))"

section \<open>The schema validator \<^verbatim>\<open>validateResponseSchema\<close>\<close>

text \<open>
  Ajv is outside the repository. The module creates one instance and every call
  compiles on it, so the instance is threaded through: \<open>compile\<close> takes the instance and
  the schema and gives back the validate function, or the error Ajv throws for a schema
  it refuses, together with the instance afterwards. Calling the validate function on a
  body gives what it returns and its \<^verbatim>\<open>errors\<close> property afterwards (\<open>None\<close> for
  \<^verbatim>\<open>null\<close>). What it returns is a boolean, or, for a schema marked \<^verbatim>\<open>$async\<close>, a
  promise; the function under study is declared to return a boolean and hands on
  whichever it got. In an error object \<^verbatim>\<open>message\<close> may be missing.
\<close>

datatype validity =
    Boolean bool
  | Promise

record ErrorObject =
  instancePath :: string
  message :: "string option"

type_synonym 'b ValidateFunction = "'b \<Rightarrow> validity \<times> ErrorObject list option"

text \<open>\<^verbatim>\<open>Array.prototype.join\<close>.\<close>

fun join :: "string \<Rightarrow> string list \<Rightarrow> string" where
  "join sep [] = []"
| "join sep [x] = x"
| "join sep (x # y # ys) = x @ sep @ join sep (y # ys)"

text \<open>The line written for one violation; a missing message prints as \<^verbatim>\<open>undefined\<close>.\<close>

definition errorLine :: "ErrorObject \<Rightarrow> string" where
  "errorLine error =
     ''Path: '' @ (if instancePath error \<noteq> [] then instancePath error else ''root'')
       @ '' - '' @ (case message error of None \<Rightarrow> ''undefined'' | Some m \<Rightarrow> m)"

text \<open>
  The template literal handed to \<^verbatim>\<open>new Error\<close>; \<open>dump\<close> is
  \<^verbatim>\<open>JSON.stringify(response, null, 2)\<close> and \<open>CHR 0x0A\<close> the line feed.
\<close>

definition failureMessage :: "ErrorObject list \<Rightarrow> string \<Rightarrow> string" where
  "failureMessage errs dump =
     ''Schema validation failed:'' @ [CHR 0x0A] @ join [CHR 0x0A] (map errorLine errs)
       @ [CHR 0x0A, CHR 0x0A] @ ''Actual Response:'' @ [CHR 0x0A] @ dump"

text \<open>
  \<open>stringify\<close> is \<^verbatim>\<open>JSON.stringify(\<dots>, null, 2)\<close>. The error is thrown when what the
  validate function returned is falsy, which of a boolean and a promise only
  \<^verbatim>\<open>false\<close> is, and its \<^verbatim>\<open>errors\<close> property is truthy, which every array is; otherwise
  what the validate function returned is returned.
\<close>

definition validateResponseSchema ::
  "('ajv \<Rightarrow> 'schema \<Rightarrow> 'body ValidateFunction result \<times> 'ajv) \<Rightarrow> ('body \<Rightarrow> string)
     \<Rightarrow> 'ajv \<Rightarrow> 'body \<Rightarrow> 'schema \<Rightarrow> validity result \<times> 'ajv" where
  "validateResponseSchema compile stringify ajv response schema =
     (case compile ajv schema of
        (Inl e, ajv') \<Rightarrow> (Inl e, ajv')
      | (Inr validate, ajv') \<Rightarrow>
          (case validate response of
             (isValid, errors) \<Rightarrow>
               (case errors of
                  Some errs \<Rightarrow>
                    if isValid = Boolean False
                    then (Inl (Error (failureMessage errs (stringify response))), ajv')
                    else (Inr isValid, ajv')
                | None \<Rightarrow> (Inr isValid, ajv'))))"

section \<open>What the specification asks for\<close>

text \<open>
  The entity constraints of the data model, in the specification's words: positive
  identifier, non-empty title and description, positive price, discount percentage
  within 0 to 100, rating within 0 to 5, stock a non-negative integer, brand optional,
  non-empty category, thumbnail a URL string, images a sequence of URL strings. What
  counts as a URL string is left to the parameter \<open>is_url\<close>.
\<close>

definition is_integer :: "rat \<Rightarrow> bool" where
  "is_integer q = (of_int \<lfloor>q\<rfloor> = q)"

definition entity_constraints :: "(string \<Rightarrow> bool) \<Rightarrow> Product \<Rightarrow> bool" where
  "entity_constraints is_url p =
     (0 < numeric (id' p) \<and> title p \<noteq> [] \<and> description p \<noteq> []
      \<and> 0 < numeric (price p)
      \<and> 0 \<le> numeric (discountPercentage p) \<and> numeric (discountPercentage p) \<le> 100
      \<and> 0 \<le> numeric (rating p) \<and> numeric (rating p) \<le> 5
      \<and> 0 \<le> numeric (stock p) \<and> is_integer (numeric (stock p))
      \<and> category p \<noteq> []
      \<and> is_url (thumbnail p)
      \<and> list_all is_url (images p))"

text \<open>
  The field-level match of a mutation result, in the specification's words: every field
  present in the expected partial equals the actual field, where a falsy expected value
  counts as the field being left out.
\<close>

definition present_fields_match :: "Product \<Rightarrow> Partial_Product \<Rightarrow> bool" where
  "present_fields_match actual expected =
     ((case id_opt expected of None \<Rightarrow> True
           | Some v \<Rightarrow> numeric v = 0 \<or> id' actual = v)
      \<and> (case title_opt expected of None \<Rightarrow> True | Some v \<Rightarrow> v = [] \<or> title actual = v)
      \<and> (case description_opt expected of None \<Rightarrow> True
           | Some v \<Rightarrow> v = [] \<or> description actual = v)
      \<and> (case price_opt expected of None \<Rightarrow> True
           | Some v \<Rightarrow> numeric v = 0 \<or> price actual = v)
      \<and> (case discountPercentage_opt expected of None \<Rightarrow> True
           | Some v \<Rightarrow> numeric v = 0 \<or> discountPercentage actual = v)
      \<and> (case rating_opt expected of None \<Rightarrow> True
           | Some v \<Rightarrow> numeric v = 0 \<or> rating actual = v)
      \<and> (case stock_opt expected of None \<Rightarrow> True
           | Some v \<Rightarrow> numeric v = 0 \<or> stock actual = v)
      \<and> (case brand_opt expected of None \<Rightarrow> True
           | Some v \<Rightarrow> v = [] \<or> brand actual = Some v)
      \<and> (case category_opt expected of None \<Rightarrow> True
           | Some v \<Rightarrow> v = [] \<or> category actual = v)
      \<and> (case thumbnail_opt expected of None \<Rightarrow> True
           | Some v \<Rightarrow> v = [] \<or> thumbnail actual = v)
      \<and> (case images_opt expected of None \<Rightarrow> True | Some v \<Rightarrow> images actual = v))"

text \<open>
  The canonical identifier of a category: the slug if present, else the name, else the
  string itself. For a field of type string, present is read as non-empty, as in the
  tests' \<^verbatim>\<open>cat.slug || cat.name\<close>.
\<close>

fun canonical_identifier :: "category_arg \<Rightarrow> string" where
  "canonical_identifier (CategoryString s) = s"
| "canonical_identifier (CategoryRecord c) = (if slug c \<noteq> [] then slug c else name c)"

text \<open>
  Pagination correctness, in the specification's words: the echoed skip and limit equal
  the requested values, as numbers, and the number of products is at most the requested
  limit.
\<close>

definition pagination_echoed :: "ProductsResponse \<Rightarrow> number \<Rightarrow> number \<Rightarrow> bool" where
  "pagination_echoed response requestedSkip requestedLimit =
     (numeric (skip response) = numeric requestedSkip
      \<and> numeric (limit response) = numeric requestedLimit
      \<and> of_nat (length (products response)) \<le> numeric requestedLimit)"

text \<open>A string of ASCII characters.\<close>

definition is_ascii :: "string \<Rightarrow> bool" where
  "is_ascii s = list_all (\<lambda>c. (of_char c :: nat) < 128) s"

text \<open>
  An outcome forwards a response when it is an envelope with the decoded body, the
  received status code, and a success flag that is true exactly for a status in the range
  200 to 299.
\<close>

definition forwarded :: "'d APIResponse \<Rightarrow> 'd \<Rightarrow> 'd ApiResponse result \<Rightarrow> bool" where
  "forwarded response d outcome =
     (case outcome of
        Inl e \<Rightarrow> False
      | Inr env \<Rightarrow>
          data env = d \<and> status env = status_code response
          \<and> ok env = (200 \<le> status env \<and> status env \<le> 299))"

section \<open>Sample data\<close>

definition iphone :: Product where
  "iphone =
     \<lparr> id' = Finite 1, title = ''iPhone 9'', description = ''An apple mobile'',
       price = Finite 549, discountPercentage = Finite 12.96, rating = Finite 4.69,
       stock = Finite 94, brand = Some ''Apple'',
       category = ''smartphones'',
       thumbnail = ''https://cdn.dummyjson.com/product-images/1/thumbnail.jpg'',
       images = [''https://cdn.dummyjson.com/product-images/1/1.jpg''] \<rparr>"

definition irregular_product :: Product where
  "irregular_product =
     \<lparr> id' = Finite 2, title = ''Essence Mascara'', description = ''A mascara'',
       price = Finite 9.99, discountPercentage = Finite 150, rating = Finite 4.5,
       stock = Finite (5 / 2), brand = None,
       category = ''beauty'', thumbnail = ''n/a'', images = [] \<rparr>"

definition no_update :: Partial_Product where
  "no_update =
     \<lparr> id_opt = None, title_opt = None, description_opt = None, price_opt = None,
       discountPercentage_opt = None, rating_opt = None, stock_opt = None,
       brand_opt = None, category_opt = None, thumbnail_opt = None, images_opt = None \<rparr>"

definition first_page :: ProductsResponse where
  "first_page =
     \<lparr> products = [iphone], total' = Finite 194, skip = Finite 0, limit = Finite 30 \<rparr>"

definition no_match :: ProductsResponse where
  "no_match = \<lparr> products = [], total' = Finite 0, skip = Finite 0, limit = Finite 0 \<rparr>"

definition beauty :: Category where
  "beauty = \<lparr> slug = ''beauty'', name = ''Beauty'',
              url = ''https://dummyjson.com/products/category/beauty'' \<rparr>"

definition offline :: "unit APIRequestContext" where
  "offline = \<lparr> respond = (\<lambda>rq. Inl (External ''offline'')), issued = [] \<rparr>"

definition not_found :: "string APIResponse" where
  "not_found =
     \<lparr> json_result = Inr ''Product with id 999999 not found'', status_code = 404,
       ok_flag = False, statusText_value = ''Not Found'',
       headers_value = [(''content-type'', ''application/json; charset=utf-8'')] \<rparr>"

definition server :: "string APIResponse \<Rightarrow> string APIRequestContext" where
  "server response = \<lparr> respond = (\<lambda>rq. Inr response), issued = [] \<rparr>"

text \<open>A completed response whose body is an HTML error page, so that it does not decode.\<close>

definition not_found_html :: "string APIResponse" where
  "not_found_html =
     \<lparr> json_result = Inl (External ''SyntaxError: Unexpected token < in JSON at position 0''),
       status_code = 404, ok_flag = False, statusText_value = ''Not Found'',
       headers_value = [(''content-type'', ''text/html; charset=utf-8'')] \<rparr>"

text \<open>
  A stand-in for a compiled validate function: it accepts an array of at most one item
  whose first item, if any, is a string, and reports every violation otherwise.
\<close>

definition tags_validate :: "jsval ValidateFunction" where
  "tags_validate body =
     (case body of
        JArr vs \<Rightarrow>
          (let errs =
             (if 1 < length vs
              then [\<lparr> instancePath = [],
                      message = Some ''must NOT have more than 1 items'' \<rparr>]
              else [])
             @ (case vs of
                  [] \<Rightarrow> []
                | v # rest \<Rightarrow>
                    (case v of
                       JStr t \<Rightarrow> []
                     | _ \<Rightarrow> [\<lparr> instancePath = ''/0'', message = Some ''must be string'' \<rparr>]))
           in if errs = [] then (Boolean True, None) else (Boolean False, Some errs))
      | _ \<Rightarrow> (Boolean False,
              Some [\<lparr> instancePath = [], message = Some ''must be array'' \<rparr>]))"

text \<open>
  A stand-in for \<^verbatim>\<open>ajv.compile\<close> on schemas that carry an \<^verbatim>\<open>$id\<close>, each call handing
  over a freshly built schema object. A schema is given by its \<^verbatim>\<open>$id\<close> and the instance
  by the list of identifiers registered on it: the first compilation registers the
  identifier, and Ajv refuses to compile another schema object under an identifier that
  is already registered.
\<close>

definition registering_compile ::
  "string list \<Rightarrow> string \<Rightarrow> jsval ValidateFunction result \<times> string list" where
  "registering_compile ajv schema =
     (if schema \<in> set ajv
      then (Inl (External (''schema with key or id already exists: '' @ schema)), ajv)
      else (Inr tags_validate, schema # ajv))"

section \<open>Properties of the matchers and of the string functions\<close>

lemma block_ok_iff: "block rs = Inr () \<longleftrightarrow> (\<forall>r \<in> set rs. r = Inr ())"
  by (induction rs rule: block.induct) auto

lemma forEach_ok_iff: "forEach f xs = Inr () \<longleftrightarrow> (\<forall>x \<in> set xs. f x = Inr ())"
  by (induction xs) (auto split: sum.splits)

lemma toBe_str_iff: "toBe (JStr s) (JStr t) = Inr () \<longleftrightarrow> s = t"
  by (simp add: toBe_def)

lemma toBe_num_iff: "toBe (JNum a) (JNum b) = Inr () \<longleftrightarrow> a = b"
  by (simp add: toBe_def)

lemma toBe_optional_str_iff: "toBe (optional JStr x) (JStr t) = Inr () \<longleftrightarrow> x = Some t"
  by (cases x) (simp_all add: toBe_def)

text \<open>\<open>str_includes\<close> is the substring relation.\<close>

lemma str_includes_iff: "str_includes s t \<longleftrightarrow> (\<exists>u v. s = u @ t @ v)"
proof (induction s)
  case Nil
  then show ?case by auto
next
  case (Cons c s)
  have "take (length t) (c # s) = t \<longleftrightarrow> (\<exists>v. c # s = t @ v)"
    by (metis append_eq_conv_conj)
  moreover have "(\<exists>u v. c # s = u @ t @ v) \<longleftrightarrow> (\<exists>v. c # s = t @ v) \<or> (\<exists>u v. s = u @ t @ v)"
  proof
    assume "\<exists>u v. c # s = u @ t @ v"
    then obtain u v where uv: "c # s = u @ t @ v" by blast
    show "(\<exists>v. c # s = t @ v) \<or> (\<exists>u v. s = u @ t @ v)"
    proof (cases u)
      case Nil
      with uv show ?thesis by auto
    next
      case (Cons a u')
      with uv have "s = u' @ t @ v" by simp
      then show ?thesis by blast
    qed
  next
    assume "(\<exists>v. c # s = t @ v) \<or> (\<exists>u v. s = u @ t @ v)"
    then show "\<exists>u v. c # s = u @ t @ v"
    proof
      assume "\<exists>v. c # s = t @ v"
      then obtain v where "c # s = [] @ t @ v" by auto
      then show ?thesis by blast
    next
      assume "\<exists>u v. s = u @ t @ v"
      then obtain u v where "c # s = (c # u) @ t @ v" by auto
      then show ?thesis by blast
    qed
  qed
  ultimately show ?case using Cons by simp
qed

section \<open>Search relevance\<close>

lemma matchSearch_with_brand:
  "brand p = Some b \<Longrightarrow>
     matchSearch searchTerm p = Inr () \<longleftrightarrow>
       str_includes (toLowerCase (title p)) (toLowerCase searchTerm)
       \<or> str_includes (toLowerCase (description p)) (toLowerCase searchTerm)
       \<or> str_includes (toLowerCase b) (toLowerCase searchTerm)"
  by (simp add: matchSearch_def toBeTruthy_def Let_def)

lemma matchSearch_without_brand:
  "brand p = None \<Longrightarrow> matchSearch searchTerm p = Inl TypeError"
  by (simp add: matchSearch_def)

text \<open>
  On products that all carry a brand the helper succeeds exactly when every product
  matches the term in its title, description or brand. The statement is about ASCII
  strings, on which \<open>toLowerCase\<close> is the language's function.
\<close>

lemma assertProductsMatchSearch_with_brands:
  assumes "\<forall>p \<in> set ps. brand p \<noteq> None"
    and "is_ascii searchTerm"
    and "\<forall>p \<in> set ps. is_ascii (title p) \<and> is_ascii (description p)
           \<and> is_ascii (the (brand p))"
  shows "assertProductsMatchSearch ps searchTerm = Inr () \<longleftrightarrow>
           (\<forall>p \<in> set ps.
              str_includes (toLowerCase (title p)) (toLowerCase searchTerm)
              \<or> str_includes (toLowerCase (description p)) (toLowerCase searchTerm)
              \<or> str_includes (toLowerCase (the (brand p))) (toLowerCase searchTerm))"
proof -
  have "matchSearch searchTerm p = Inr () \<longleftrightarrow>
          str_includes (toLowerCase (title p)) (toLowerCase searchTerm)
          \<or> str_includes (toLowerCase (description p)) (toLowerCase searchTerm)
          \<or> str_includes (toLowerCase (the (brand p))) (toLowerCase searchTerm)"
    if "p \<in> set ps" for p
  proof -
    from that assms(1) obtain b where "brand p = Some b" by auto
    then show ?thesis by (simp add: matchSearch_with_brand)
  qed
  then show ?thesis
    by (simp add: assertProductsMatchSearch_def forEach_ok_iff)
qed

text \<open>
  Claim C1. The helper is to succeed exactly when every product contains the lowercased
  term in its lowercased title, description or brand, and a product without a brand is
  to pass when its title or description matches. On the code the second half fails: for
  the product "iPhone 9" with the brand left out and the term "phone", the title
  matches, and the helper throws a TypeError from \<^verbatim>\<open>product.brand.toLowerCase()\<close>.
\<close>

theorem assertProductsMatchSearch_absent_brand_throws:
  "str_includes (toLowerCase (title (iphone\<lparr>brand := None\<rparr>))) (toLowerCase ''phone'')
   \<and> assertProductsMatchSearch [iphone\<lparr>brand := None\<rparr>] ''phone'' = Inl TypeError"
  by (simp add: assertProductsMatchSearch_def matchSearch_def iphone_def toLowerCase_def
        lowerChar_def)

section \<open>Entity validity\<close>

text \<open>
  Claim C2, as amended. \<^verbatim>\<open>assertValidProduct\<close> accepts exactly the products with positive
  id, non-empty title, non-empty description, positive price, non-negative discount
  percentage, rating from 0 to 5, non-negative stock, non-empty category and non-empty
  thumbnail. It puts no upper bound on the discount percentage, does not ask the stock to
  be an integer, looks at no URL, and constrains neither the brand nor the elements of
  images.
\<close>

theorem assertValidProduct_accepts_iff:
  "assertValidProduct p = Inr () \<longleftrightarrow>
     0 < numeric (id' p) \<and> title p \<noteq> [] \<and> description p \<noteq> [] \<and> 0 < numeric (price p)
     \<and> 0 \<le> numeric (discountPercentage p)
     \<and> 0 \<le> numeric (rating p) \<and> numeric (rating p) \<le> 5
     \<and> 0 \<le> numeric (stock p)
     \<and> category p \<noteq> [] \<and> thumbnail p \<noteq> []"
  by (auto simp: assertValidProduct_def block_ok_iff toBeTruthy_def toBeDefined_def)

theorem assertValidProduct_accepts_iff_witness:
  "assertValidProduct iphone = Inr ()
   \<and> assertValidProduct (iphone\<lparr>rating := Finite 6\<rparr>) \<noteq> Inr ()"
  by (simp add: assertValidProduct_accepts_iff iphone_def)

text \<open>
  The claim as stated fails: a product with a discount percentage of 150 and a stock of
  two and a half is accepted, whatever counts as a URL.
\<close>

theorem assertValidProduct_counterexample:
  "assertValidProduct irregular_product = Inr ()
   \<and> \<not> entity_constraints (\<lambda>u. True) irregular_product"
  by (simp add: assertValidProduct_def irregular_product_def entity_constraints_def
        toBeTruthy_def toBeDefined_def)

section \<open>Field-level match of mutation results\<close>

text \<open>
  Claim C4, as amended. \<^verbatim>\<open>assertProductsMatch\<close> passes exactly when, for each of the
  seven fields title, price, description, rating, stock, brand and category, an expected
  value that is present and truthy equals the actual one. Nothing else is compared: not
  the fields left out, not id, discountPercentage, thumbnail or images, and not a falsy
  expected value, so that an expected price of 0 gives the same outcome as no expected
  price at all.
\<close>

theorem assertProductsMatch_passes_iff:
  "(assertProductsMatch actual expected = Inr () \<longleftrightarrow>
      (\<forall>v. title_opt expected = Some v \<and> v \<noteq> [] \<longrightarrow> title actual = v)
      \<and> (\<forall>v. price_opt expected = Some v \<and> numeric v \<noteq> 0 \<longrightarrow> price actual = v)
      \<and> (\<forall>v. description_opt expected = Some v \<and> v \<noteq> [] \<longrightarrow> description actual = v)
      \<and> (\<forall>v. rating_opt expected = Some v \<and> numeric v \<noteq> 0 \<longrightarrow> rating actual = v)
      \<and> (\<forall>v. stock_opt expected = Some v \<and> numeric v \<noteq> 0 \<longrightarrow> stock actual = v)
      \<and> (\<forall>v. brand_opt expected = Some v \<and> v \<noteq> [] \<longrightarrow> brand actual = Some v)
      \<and> (\<forall>v. category_opt expected = Some v \<and> v \<noteq> [] \<longrightarrow> category actual = v))
   \<and> assertProductsMatch actual (expected\<lparr>price_opt := Some (Finite 0)\<rparr>)
       = assertProductsMatch actual (expected\<lparr>price_opt := None\<rparr>)"
proof
  show "assertProductsMatch actual expected = Inr () \<longleftrightarrow>
      (\<forall>v. title_opt expected = Some v \<and> v \<noteq> [] \<longrightarrow> title actual = v)
      \<and> (\<forall>v. price_opt expected = Some v \<and> numeric v \<noteq> 0 \<longrightarrow> price actual = v)
      \<and> (\<forall>v. description_opt expected = Some v \<and> v \<noteq> [] \<longrightarrow> description actual = v)
      \<and> (\<forall>v. rating_opt expected = Some v \<and> numeric v \<noteq> 0 \<longrightarrow> rating actual = v)
      \<and> (\<forall>v. stock_opt expected = Some v \<and> numeric v \<noteq> 0 \<longrightarrow> stock actual = v)
      \<and> (\<forall>v. brand_opt expected = Some v \<and> v \<noteq> [] \<longrightarrow> brand actual = Some v)
      \<and> (\<forall>v. category_opt expected = Some v \<and> v \<noteq> [] \<longrightarrow> category actual = v)"
    unfolding assertProductsMatch_def block_ok_iff
    by (cases "title_opt expected"; cases "price_opt expected";
        cases "description_opt expected"; cases "rating_opt expected";
        cases "stock_opt expected"; cases "brand_opt expected";
        cases "category_opt expected")
       (simp_all add: toBe_str_iff toBe_num_iff toBe_optional_str_iff)
  show "assertProductsMatch actual (expected\<lparr>price_opt := Some (Finite 0)\<rparr>)
       = assertProductsMatch actual (expected\<lparr>price_opt := None\<rparr>)"
    by (simp add: assertProductsMatch_def)
qed

theorem assertProductsMatch_passes_iff_witness:
  "assertProductsMatch iphone
       (no_update\<lparr>title_opt := Some ''iPhone 9'', price_opt := Some (Finite 0)\<rparr>) = Inr ()
   \<and> assertProductsMatch iphone (no_update\<lparr>title_opt := Some ''iPhone X''\<rparr>) \<noteq> Inr ()"
  by (simp add: assertProductsMatch_passes_iff no_update_def iphone_def)

text \<open>
  The claim as stated fails: with an expected discount percentage of 50 against an actual
  one of 12.96 the helper passes, although a field present in the expected partial
  differs from the actual field.
\<close>

theorem assertProductsMatch_counterexample:
  "assertProductsMatch iphone (no_update\<lparr>discountPercentage_opt := Some (Finite 50)\<rparr>) = Inr ()
   \<and> \<not> present_fields_match iphone (no_update\<lparr>discountPercentage_opt := Some (Finite 50)\<rparr>)"
  by (simp add: assertProductsMatch_def no_update_def iphone_def present_fields_match_def)

section \<open>Listing validity and pagination\<close>

text \<open>
  Claim C5. \<^verbatim>\<open>assertValidProductsResponse\<close> accepts exactly the listing envelopes whose
  products field is an array, whose total is strictly positive, whose skip is
  non-negative, whose limit is strictly positive and whose number of products is at most
  the limit; on an envelope whose total is 0 it raises.
\<close>

theorem assertValidProductsResponse_accepts_iff:
  "(assertValidProductsResponse r = Inr () \<longleftrightarrow>
      Array_isArray (JArr (map (\<lambda>p. JObject) (products r)))
      \<and> 0 < numeric (total' r) \<and> 0 \<le> numeric (skip r) \<and> 0 < numeric (limit r)
      \<and> of_nat (length (products r)) \<le> numeric (limit r))
   \<and> (numeric (total' r) = 0 \<longrightarrow> (\<exists>e. assertValidProductsResponse r = Inl e))"
  by (auto simp: assertValidProductsResponse_def toBeTruthy_def toBeDefined_def)

theorem assertValidProductsResponse_accepts_iff_witness:
  "assertValidProductsResponse first_page = Inr ()
   \<and> numeric (total' no_match) = 0
   \<and> (\<exists>e. assertValidProductsResponse no_match = Inl e)"
  using assertValidProductsResponse_accepts_iff [of first_page]
    assertValidProductsResponse_accepts_iff [of no_match]
  by (simp add: first_page_def no_match_def)

text \<open>
  Claim C6, as amended. For every requested skip and limit, \<^verbatim>\<open>assertPagination\<close>
  succeeds if and only if the envelope's skip is the same value as the requested skip,
  its limit is the same value as the requested limit, and the number of returned
  products is at most the requested limit. The same value is that of \<^verbatim>\<open>Object.is\<close>,
  which \<^verbatim>\<open>toBe\<close> uses: equal numbers, except that a negative zero is the same value
  only as a negative zero.
\<close>

theorem assertPagination_succeeds_iff:
  "assertPagination r expectedSkip expectedLimit = Inr () \<longleftrightarrow>
     skip r = expectedSkip \<and> limit r = expectedLimit
     \<and> of_nat (length (products r)) \<le> numeric expectedLimit"
  by (auto simp: assertPagination_def toBe_def)

theorem assertPagination_succeeds_iff_witness:
  "assertPagination first_page (Finite 0) (Finite 30) = Inr ()
   \<and> assertPagination first_page (Finite 10) (Finite 30) \<noteq> Inr ()
   \<and> assertPagination (first_page\<lparr>skip := NegativeZero\<rparr>) NegativeZero (Finite 30) = Inr ()"
  by (simp add: assertPagination_succeeds_iff first_page_def)

text \<open>
  The claim as stated fails: an envelope that echoes the skip as \<^verbatim>\<open>-0\<close> for a
  requested skip of 0 has a skip equal to the requested one, and the helper throws.
\<close>

theorem assertPagination_counterexample:
  "pagination_echoed (first_page\<lparr>skip := NegativeZero\<rparr>) (Finite 0) (Finite 30)
   \<and> assertPagination (first_page\<lparr>skip := NegativeZero\<rparr>) (Finite 0) (Finite 30)
       = Inl (ExpectFailed ToBe)"
  by (simp add: pagination_echoed_def assertPagination_def first_page_def toBe_def)

section \<open>The client wrapper\<close>

text \<open>Every call issues exactly one request, whatever comes back.\<close>

lemma issued_call: "issued (snd (call request rq)) = issued request @ [rq]"
  by (simp add: call_def fetch_def split: sum.splits)

lemma call_completed:
  assumes "respond request rq = Inr response" and "json_result response = Inr d"
    and "ok_flag response = (200 \<le> status_code response \<and> status_code response \<le> 299)"
  shows "forwarded response d (fst (call request rq))"
  using assms by (simp add: call_def fetch_def envelope_def forwarded_def)

text \<open>A transport failure and a body that does not decode both propagate as they are.\<close>

lemma call_transport_failure:
  "respond request rq = Inl e \<Longrightarrow> fst (call request rq) = Inl e"
  by (simp add: call_def fetch_def)

lemma call_undecodable_body:
  "respond request rq = Inr response \<Longrightarrow> json_result response = Inl e
     \<Longrightarrow> fst (call request rq) = Inl e"
  by (simp add: call_def fetch_def envelope_def)

text \<open>
  The first copy of \<^verbatim>\<open>getProductsByCategory\<close> resolves a record to its slug; that is the
  canonical identifier whenever the slug is not empty. It never falls back to the name.
\<close>

lemma getProductsByCategory_canonical:
  "slug c \<noteq> [] \<Longrightarrow>
     issued (snd (getProductsByCategory request (CategoryRecord c)))
       = issued request @ [\<lparr> verb = GET,
            target = ''/products/category/'' @ canonical_identifier (CategoryRecord c),
            options = NoOptions \<rparr>]"
  by (simp add: getProductsByCategory_def issued_call)

lemma getProductsByCategory_empty_slug:
  "slug c = [] \<Longrightarrow>
     issued (snd (getProductsByCategory request (CategoryRecord c)))
       = issued request @ [\<lparr> verb = GET, target = ''/products/category/'',
            options = NoOptions \<rparr>]"
  by (simp add: getProductsByCategory_def issued_call)

text \<open>
  Claim C3. Every category argument, string or record, is to be resolved to its
  canonical identifier before the request, and the request path is to end with
  \<^verbatim>\<open>/products/category/\<close> followed by that identifier. On the code the second copy of
  the class fails this for a record: for the category with slug "beauty" it requests
  \<^verbatim>\<open>https://dummyjson.com/products/category/[object Object]\<close>, where the canonical
  identifier gives \<^verbatim>\<open>https://dummyjson.com/products/category/beauty\<close>.
\<close>

theorem getProductsByCategory_baseURL_record:
  "map target (issued (request_context (snd
      (getProductsByCategory_baseURL (new_ProductsAPI_baseURL offline None)
         (CategoryRecord beauty)))))
     = [''https://dummyjson.com/products/category/[object Object]'']
   \<and> ''https://dummyjson.com/products/category/'' @ canonical_identifier (CategoryRecord beauty)
     = ''https://dummyjson.com/products/category/beauty''"
  by (simp add: getProductsByCategory_baseURL_def new_ProductsAPI_baseURL_def offline_def
        fetch_def beauty_def)

text \<open>
  Claim C9. For every string-valued category argument, both copies of
  \<^verbatim>\<open>getProductsByCategory\<close> issue one GET request whose target is the fixed prefix
  followed by the string exactly as given, with nothing encoded or escaped; whatever
  follows a slash inside the string is therefore part of the path requested.
\<close>

theorem getProductsByCategory_string_verbatim:
  "issued (snd (getProductsByCategory request (CategoryString s)))
     = issued request @ [\<lparr> verb = GET, target = ''/products/category/'' @ s,
          options = NoOptions \<rparr>]
   \<and> issued (request_context (snd (getProductsByCategory_baseURL this (CategoryString s))))
     = issued (request_context this)
         @ [\<lparr> verb = GET, target = baseURL this @ ''/products/category/'' @ s,
              options = NoOptions \<rparr>]"
  by (simp add: getProductsByCategory_def issued_call getProductsByCategory_baseURL_def
        fetch_def split: sum.splits)

theorem getProductsByCategory_string_verbatim_witness:
  "map target (issued (snd
      (getProductsByCategory offline (CategoryString ''laptops/../../users?limit=1''))))
     = [''/products/category/laptops/../../users?limit=1'']"
  using getProductsByCategory_string_verbatim
          [THEN conjunct1, of offline "''laptops/../../users?limit=1''"]
  by (simp add: offline_def)

text \<open>
  Claim C8, as amended. For every completed response whose body decodes as JSON, each of
  the nine operations of the envelope-returning client returns an envelope that carries
  the decoded body and the received status code unchanged, with a success flag that is
  true exactly when the status is in the range 200 to 299. The status is arbitrary here:
  a non-existent id answered with a JSON error body surfaces as a 404 envelope, not as
  an error. The library's \<^verbatim>\<open>ok()\<close> is taken to be its documented value.
\<close>

theorem client_wrapper_forwards_status:
  assumes "json_result response = Inr d"
    and "ok_flag response = (200 \<le> status_code response \<and> status_code response \<le> 299)"
  shows
   "(respond request \<lparr> verb = GET, target = ''/products'',
        options = Params [(''limit'', JNum (case limit_arg of None \<Rightarrow> Finite 30 | Some l \<Rightarrow> l)),
                          (''skip'', JNum (case skip_arg of None \<Rightarrow> Finite 0 | Some s \<Rightarrow> s))] \<rparr>
       = Inr response
     \<longrightarrow> forwarded response d (fst (getAllProducts request limit_arg skip_arg)))
    \<and> (respond request \<lparr> verb = GET, target = ''/products/'' @ numberToString ident,
           options = NoOptions \<rparr> = Inr response
       \<longrightarrow> forwarded response d (fst (getProductById numberToString request ident)))
    \<and> (respond request \<lparr> verb = GET, target = ''/products/search'',
           options = Params [(''q'', JStr query)] \<rparr> = Inr response
       \<longrightarrow> forwarded response d (fst (searchProducts request query)))
    \<and> (respond request \<lparr> verb = GET, target = ''/products/categories'',
           options = NoOptions \<rparr> = Inr response
       \<longrightarrow> forwarded response d (fst (getCategories request)))
    \<and> (respond request \<lparr> verb = GET,
           target = ''/products/category/''
             @ (case categoryArg of CategoryString s \<Rightarrow> s | CategoryRecord c \<Rightarrow> slug c),
           options = NoOptions \<rparr> = Inr response
       \<longrightarrow> forwarded response d (fst (getProductsByCategory request categoryArg)))
    \<and> (respond request \<lparr> verb = POST, target = ''/products/add'',
           options = Data product \<rparr> = Inr response
       \<longrightarrow> forwarded response d (fst (addProduct request product)))
    \<and> (respond request \<lparr> verb = PUT, target = ''/products/'' @ numberToString ident,
           options = Data updates \<rparr> = Inr response
       \<longrightarrow> forwarded response d (fst (updateProduct numberToString request ident updates)))
    \<and> (respond request \<lparr> verb = PATCH, target = ''/products/'' @ numberToString ident,
           options = Data updates \<rparr> = Inr response
       \<longrightarrow> forwarded response d (fst (patchProduct numberToString request ident updates)))
    \<and> (respond request \<lparr> verb = DELETE, target = ''/products/'' @ numberToString ident,
           options = NoOptions \<rparr> = Inr response
       \<longrightarrow> forwarded response d (fst (deleteProduct numberToString request ident)))"
  using assms
  by (simp add: getAllProducts_def getProductById_def searchProducts_def getCategories_def
        getProductsByCategory_def addProduct_def updateProduct_def patchProduct_def
        deleteProduct_def call_completed)

theorem client_wrapper_forwards_status_witness:
  "status_code not_found = 404
   \<and> json_result not_found = Inr ''Product with id 999999 not found''
   \<and> ok_flag not_found = (200 \<le> status_code not_found \<and> status_code not_found \<le> 299)
   \<and> forwarded not_found ''Product with id 999999 not found''
        (fst (getProductById (\<lambda>n. ''999999'') (server not_found) (Finite 999999)))"
proof -
  have j: "json_result not_found = Inr ''Product with id 999999 not found''"
    by (simp add: not_found_def)
  have k: "ok_flag not_found = (200 \<le> status_code not_found \<and> status_code not_found \<le> 299)"
    by (simp add: not_found_def)
  have r: "respond (server not_found)
             \<lparr> verb = GET, target = ''/products/'' @ (\<lambda>n. ''999999'') (Finite 999999),
               options = NoOptions \<rparr> = Inr not_found"
    by (simp add: server_def)
  from client_wrapper_forwards_status
         [OF j k, of "server not_found" _ _ "\<lambda>n. ''999999''" "Finite 999999"] r
  have "forwarded not_found ''Product with id 999999 not found''
          (fst (getProductById (\<lambda>n. ''999999'') (server not_found) (Finite 999999)))"
    by blast
  with j k show ?thesis
    by (simp add: not_found_def)
qed

text \<open>
  The claim as stated fails: every operation awaits \<^verbatim>\<open>response.json()\<close>, so a completed
  404 response whose body is an HTML page makes \<^verbatim>\<open>getProductById\<close> throw instead of
  returning an envelope.
\<close>

theorem client_wrapper_counterexample:
  "respond (server not_found_html)
      \<lparr> verb = GET, target = ''/products/999999'', options = NoOptions \<rparr> = Inr not_found_html
   \<and> status_code not_found_html = 404
   \<and> fst (getProductById (\<lambda>n. ''999999'') (server not_found_html) (Finite 999999))
       = Inl (External ''SyntaxError: Unexpected token < in JSON at position 0'')"
  by (simp add: getProductById_def call_def fetch_def envelope_def server_def
        not_found_html_def)

section \<open>The schema validator\<close>

lemma join_member: "x \<in> set xs \<Longrightarrow> \<exists>u v. join sep xs = u @ x @ v"
proof (induction sep xs rule: join.induct)
  case (1 sep)
  then show ?case by simp
next
  case (2 sep y)
  then have "join sep [y] = [] @ x @ []" by simp
  then show ?case by blast
next
  case (3 sep y z zs)
  show ?case
  proof (cases "x = y")
    case True
    then have "join sep (y # z # zs) = [] @ x @ (sep @ join sep (z # zs))" by simp
    then show ?thesis by blast
  next
    case False
    with 3 obtain u v where "join sep (z # zs) = u @ x @ v" by auto
    then have "join sep (y # z # zs) = (y @ sep @ u) @ x @ v" by simp
    then show ?thesis by blast
  qed
qed

lemma failureMessage_has_line:
  assumes "e \<in> set errs"
  shows "str_includes (failureMessage errs dump) (errorLine e)"
proof -
  from assms have "errorLine e \<in> set (map errorLine errs)" by simp
  then obtain u v where "join [CHR 0x0A] (map errorLine errs) = u @ errorLine e @ v"
    using join_member by blast
  then have "failureMessage errs dump
      = (''Schema validation failed:'' @ [CHR 0x0A] @ u) @ errorLine e
          @ (v @ [CHR 0x0A, CHR 0x0A] @ ''Actual Response:'' @ [CHR 0x0A] @ dump)"
    by (simp add: failureMessage_def)
  then show ?thesis unfolding str_includes_iff by blast
qed

lemma failureMessage_has_dump: "str_includes (failureMessage errs dump) dump"
proof -
  have "failureMessage errs dump
      = (''Schema validation failed:'' @ [CHR 0x0A] @ join [CHR 0x0A] (map errorLine errs)
          @ [CHR 0x0A, CHR 0x0A] @ ''Actual Response:'' @ [CHR 0x0A]) @ dump @ []"
    by (simp add: failureMessage_def)
  then show ?thesis unfolding str_includes_iff by blast
qed


text \<open>
  Claim C7, as amended. For every body and schema the outcome of
  \<^verbatim>\<open>validateResponseSchema\<close> is one of five. If Ajv refuses to compile the schema, its
  error is raised, whatever the body. If the schema is marked \<^verbatim>\<open>$async\<close>, the promise
  of the validate function is returned as it is. Otherwise, if the body conforms, the
  boolean true is returned. If the body does not conform and Ajv has left its errors array, exactly
  one error is raised, whose message is "Schema validation failed:", a line feed, the
  lines "Path: " instance path (or "root" when it is empty) " - " message, one per
  violation and joined by line feeds, two line feeds, "Actual Response:", a line feed
  and the pretty-printed dump of the body; the message therefore contains the line of
  every violation and the dump. False is returned only if validation failed with no
  errors array left, which Ajv does not do.
\<close>

theorem validateResponseSchema_outcome:
  "(compile ajv schema = (Inl err, ajv')
      \<longrightarrow> fst (validateResponseSchema compile stringify ajv body schema) = Inl err)
   \<and> (compile ajv schema = (Inr validate, ajv') \<and> validate body = (Boolean True, errors)
      \<longrightarrow> fst (validateResponseSchema compile stringify ajv body schema)
            = Inr (Boolean True))
   \<and> (compile ajv schema = (Inr validate, ajv')
        \<and> validate body = (Boolean False, Some errs)
      \<longrightarrow> (\<exists>msg.
            fst (validateResponseSchema compile stringify ajv body schema) = Inl (Error msg)
            \<and> msg = ''Schema validation failed:'' @ [CHR 0x0A]
                  @ join [CHR 0x0A]
                      (map (\<lambda>e. ''Path: ''
                                @ (if instancePath e \<noteq> [] then instancePath e else ''root'')
                                @ '' - ''
                                @ (case message e of None \<Rightarrow> ''undefined'' | Some m \<Rightarrow> m))
                         errs)
                  @ [CHR 0x0A, CHR 0x0A] @ ''Actual Response:'' @ [CHR 0x0A] @ stringify body
            \<and> (\<forall>e \<in> set errs.
                  str_includes msg
                    (''Path: '' @ (if instancePath e \<noteq> [] then instancePath e else ''root'')
                       @ '' - '' @ (case message e of None \<Rightarrow> ''undefined'' | Some m \<Rightarrow> m)))
            \<and> str_includes msg (stringify body)))
   \<and> (compile ajv schema = (Inr validate, ajv') \<and> validate body = (Boolean False, None)
      \<longrightarrow> fst (validateResponseSchema compile stringify ajv body schema)
            = Inr (Boolean False))
   \<and> (compile ajv schema = (Inr validate, ajv') \<and> validate body = (Promise, errors)
      \<longrightarrow> fst (validateResponseSchema compile stringify ajv body schema) = Inr Promise)"
proof (intro conjI impI)
  assume "compile ajv schema = (Inl err, ajv')"
  then show "fst (validateResponseSchema compile stringify ajv body schema) = Inl err"
    by (simp add: validateResponseSchema_def)
next
  assume "compile ajv schema = (Inr validate, ajv') \<and> validate body = (Boolean True, errors)"
  then show "fst (validateResponseSchema compile stringify ajv body schema)
               = Inr (Boolean True)"
    by (simp add: validateResponseSchema_def split: option.splits)
next
  assume "compile ajv schema = (Inr validate, ajv') \<and> validate body = (Boolean False, None)"
  then show "fst (validateResponseSchema compile stringify ajv body schema)
               = Inr (Boolean False)"
    by (simp add: validateResponseSchema_def)
next
  assume "compile ajv schema = (Inr validate, ajv') \<and> validate body = (Promise, errors)"
  then show "fst (validateResponseSchema compile stringify ajv body schema) = Inr Promise"
    by (simp add: validateResponseSchema_def split: option.splits)
next
  let ?line = "\<lambda>e. ''Path: '' @ (if instancePath e \<noteq> [] then instancePath e else ''root'')
                  @ '' - '' @ (case message e of None \<Rightarrow> ''undefined'' | Some m \<Rightarrow> m)"
  let ?msg = "failureMessage errs (stringify body)"
  assume "compile ajv schema = (Inr validate, ajv')
            \<and> validate body = (Boolean False, Some errs)"
  then have raised:
    "fst (validateResponseSchema compile stringify ajv body schema) = Inl (Error ?msg)"
    by (simp add: validateResponseSchema_def)
  have line: "errorLine = ?line"
    by (rule ext) (rule errorLine_def)
  have format: "?msg = ''Schema validation failed:'' @ [CHR 0x0A]
      @ join [CHR 0x0A] (map ?line errs)
      @ [CHR 0x0A, CHR 0x0A] @ ''Actual Response:'' @ [CHR 0x0A] @ stringify body"
    by (simp only: failureMessage_def line)
  have lines: "\<forall>e \<in> set errs. str_includes ?msg (?line e)"
  proof
    fix e
    assume "e \<in> set errs"
    then have "str_includes ?msg (errorLine e)"
      by (rule failureMessage_has_line)
    then show "str_includes ?msg (?line e)"
      by (simp only: errorLine_def)
  qed
  have dump: "str_includes ?msg (stringify body)"
    by (rule failureMessage_has_dump)
  from raised format lines dump
  show "\<exists>msg.
      fst (validateResponseSchema compile stringify ajv body schema) = Inl (Error msg)
      \<and> msg = ''Schema validation failed:'' @ [CHR 0x0A]
            @ join [CHR 0x0A] (map ?line errs)
            @ [CHR 0x0A, CHR 0x0A] @ ''Actual Response:'' @ [CHR 0x0A] @ stringify body
      \<and> (\<forall>e \<in> set errs. str_includes msg (?line e))
      \<and> str_includes msg (stringify body)"
    by blast
qed

theorem validateResponseSchema_outcome_witness:
  "fst (validateResponseSchema registering_compile (\<lambda>b. ''[ 1, 2 ]'') []
          (JArr [JStr ''new'']) ''tags'') = Inr (Boolean True)
   \<and> fst (validateResponseSchema registering_compile (\<lambda>b. ''[ 1, 2 ]'') []
          (JArr [JNum (Finite 1), JNum (Finite 2)]) ''tags'')
       = Inl (Error (''Schema validation failed:'' @ [CHR 0x0A]
                     @ ''Path: root - must NOT have more than 1 items'' @ [CHR 0x0A]
                     @ ''Path: /0 - must be string''
                     @ [CHR 0x0A, CHR 0x0A] @ ''Actual Response:'' @ [CHR 0x0A]
                     @ ''[ 1, 2 ]''))"
proof -
  have c: "registering_compile [] ''tags'' = (Inr tags_validate, [''tags''])"
    by (simp add: registering_compile_def)
  have good: "tags_validate (JArr [JStr ''new'']) = (Boolean True, None)"
    by (simp add: tags_validate_def)
  have bad: "tags_validate (JArr [JNum (Finite 1), JNum (Finite 2)])
      = (Boolean False, Some [\<lparr> instancePath = [],
                          message = Some ''must NOT have more than 1 items'' \<rparr>,
                       \<lparr> instancePath = ''/0'', message = Some ''must be string'' \<rparr>])"
    by (simp add: tags_validate_def)
  from validateResponseSchema_outcome
         [where compile = registering_compile and ajv = "[]" and schema = "''tags''"
            and validate = tags_validate and ajv' = "[''tags'']"
            and body = "JArr [JStr ''new'']" and errors = None
            and stringify = "\<lambda>b. ''[ 1, 2 ]''"] c good
  have a: "fst (validateResponseSchema registering_compile (\<lambda>b. ''[ 1, 2 ]'') []
             (JArr [JStr ''new'']) ''tags'') = Inr (Boolean True)"
    by blast
  from validateResponseSchema_outcome
         [where compile = registering_compile and ajv = "[]" and schema = "''tags''"
            and validate = tags_validate and ajv' = "[''tags'']"
            and body = "JArr [JNum (Finite 1), JNum (Finite 2)]"
            and errs = "[\<lparr> instancePath = [],
                            message = Some ''must NOT have more than 1 items'' \<rparr>,
                         \<lparr> instancePath = ''/0'', message = Some ''must be string'' \<rparr>]"
            and stringify = "\<lambda>b. ''[ 1, 2 ]''"] c bad
  have b: "fst (validateResponseSchema registering_compile (\<lambda>b. ''[ 1, 2 ]'') []
             (JArr [JNum (Finite 1), JNum (Finite 2)]) ''tags'')
       = Inl (Error (''Schema validation failed:'' @ [CHR 0x0A]
                     @ ''Path: root - must NOT have more than 1 items'' @ [CHR 0x0A]
                     @ ''Path: /0 - must be string''
                     @ [CHR 0x0A, CHR 0x0A] @ ''Actual Response:'' @ [CHR 0x0A]
                     @ ''[ 1, 2 ]''))"
    by simp
  from a b show ?thesis by simp
qed

text \<open>
  The claim as stated fails: the body conforms, as the first call shows by returning
  true, and a second call with the same body and an equal schema raises, because Ajv
  refuses to compile a second schema object under an identifier it has registered.
\<close>

theorem validateResponseSchema_counterexample:
  "fst (validateResponseSchema registering_compile (\<lambda>b. ''[ new ]'') []
          (JArr [JStr ''new'']) ''tags'') = Inr (Boolean True)
   \<and> fst (validateResponseSchema registering_compile (\<lambda>b. ''[ new ]'')
            (snd (validateResponseSchema registering_compile (\<lambda>b. ''[ new ]'') []
                    (JArr [JStr ''new'']) ''tags''))
            (JArr [JStr ''new'']) ''tags'')
       = Inl (External ''schema with key or id already exists: tags'')"
  by (simp add: validateResponseSchema_def registering_compile_def tags_validate_def)




end
